theory Spec2Isabelle
  imports Main "HOL-Library.AList"
begin

section \<open>Strings of the platform\<close>

text \<open>
  The program is JavaScript. Its strings are modelled as \<open>string\<close>: a list of code units
  below 256. The functions of this section are the string methods the program calls
  (\<open>split\<close>, \<open>indexOf\<close>, \<open>slice\<close>, \<open>trim\<close>, \<open>includes\<close>, \<open>startsWith\<close> and
  \<open>replace\<close> with the pattern \<open>/\/$/\<close>), written out on lists.
\<close>

text \<open>\<open>s.split(c)\<close> for a one-character separator: never empty, \<open>''''.split(c)\<close> is \<open>['''']\<close>.\<close>

fun split_on :: "string \<Rightarrow> char \<Rightarrow> string list" where
  "split_on [] c = [[]]"
| "split_on (x # xs) c =
     (if x = c then [] # split_on xs c
      else (case split_on xs c of [] \<Rightarrow> [[x]] | w # ws \<Rightarrow> (x # w) # ws))"

text \<open>\<open>s.indexOf(c)\<close>: the position of the first \<open>c\<close>, or \<open>-1\<close>.\<close>

fun indexOf :: "string \<Rightarrow> char \<Rightarrow> int" where
  "indexOf [] c = - 1"
| "indexOf (x # xs) c =
     (if x = c then 0 else (let i = indexOf xs c in if i = - 1 then - 1 else i + 1))"

text \<open>\<open>s.slice(b, e)\<close> and \<open>s.slice(b)\<close>: a negative index counts from the end.\<close>

definition slice_index :: "string \<Rightarrow> int \<Rightarrow> nat" where
  "slice_index s i =
     (let n = int (length s) in nat (if i < 0 then max (n + i) 0 else min i n))"

definition slice :: "string \<Rightarrow> int \<Rightarrow> int \<Rightarrow> string" where
  "slice s b e = (let from = slice_index s b; to = slice_index s e
     in take (to - from) (drop from s))"

definition slice_from :: "string \<Rightarrow> int \<Rightarrow> string" where
  "slice_from s b = drop (slice_index s b) s"

text \<open>
  White space and line terminators of the language among the code units below 256:
  TAB, LF, VT, FF, CR, SP and NBSP.
\<close>

definition is_white_space :: "char \<Rightarrow> bool" where
  "is_white_space c = (of_char c \<in> {9, 10, 11, 12, 13, 32, 160 :: nat})"

definition trim :: "string \<Rightarrow> string" where
  "trim s = rev (dropWhile is_white_space (rev (dropWhile is_white_space s)))"

definition startsWith :: "string \<Rightarrow> string \<Rightarrow> bool" where
  "startsWith s t = (take (length t) s = t)"

fun includes_str :: "string \<Rightarrow> string \<Rightarrow> bool" where
  "includes_str [] t = (t = [])"
| "includes_str (x # xs) t = (startsWith (x # xs) t \<or> includes_str xs t)"

text \<open>\<open>s.replace(/\/$/, '''')\<close>: one slash at the very end of the string is removed.\<close>

definition strip_trailing_slash :: "string \<Rightarrow> string" where
  "strip_trailing_slash s = (if s \<noteq> [] \<and> last s = CHR ''/'' then butlast s else s)"

section \<open>Objects with string values\<close>

text \<open>
  A plain object whose values are strings is an association list of its own properties,
  in the order of their creation.

  \<open>obj_assign\<close> is the assignment \<open>h[key] = value\<close> on an object created by \<open>{}\<close>:
  an existing property keeps its place and takes the new value, a new one is added at the
  end. The key \<open>__proto__\<close> is the exception of the language: the assignment runs the
  inherited setter, which ignores a string and creates no property.

  \<open>obj_spread\<close> is \<open>{ ...h, ...g }\<close>: the properties of \<open>g\<close> are defined on a copy of
  \<open>h\<close>, in order.
\<close>

type_synonym obj = "(string \<times> string) list"

definition obj_assign :: "obj \<Rightarrow> string \<Rightarrow> string \<Rightarrow> obj" where
  "obj_assign h key v = (if key = ''__proto__'' then h else AList.update key v h)"

definition obj_spread :: "obj \<Rightarrow> obj \<Rightarrow> obj" where
  "obj_spread h g = foldl (\<lambda>acc (k, v). AList.update k v acc) h g"

text \<open>\<open>h.key\<close> on a plain object with no property of that name inherited.\<close>

definition obj_get :: "obj \<Rightarrow> string \<Rightarrow> string option" where
  "obj_get h key = map_of h key"

section \<open>The process environment\<close>

text \<open>
  \<open>process.env\<close> maps a variable to its value; a variable that is not set reads as
  \<open>undefined\<close>, here \<open>None\<close>. A string is truthy when it is not empty. The validator
  scripts first merge the file \<open>.env\<close> into the environment; \<open>env\<close> is the environment
  after that.
\<close>

type_synonym env = "string \<rightharpoonup> string"

definition truthy :: "string option \<Rightarrow> bool" where
  "truthy v = (case v of None \<Rightarrow> False | Some s \<Rightarrow> s \<noteq> [])"

text \<open>\<open>v || d\<close> for a string default \<open>d\<close>.\<close>

definition or_else :: "string option \<Rightarrow> string \<Rightarrow> string" where
  "or_else v d = (case v of None \<Rightarrow> d | Some s \<Rightarrow> if s = [] then d else s)"

section \<open>Parsing of header and attribute strings\<close>

text \<open>
  \<open>parseOtlpHeaders\<close> of the instrumentation module. \<open>header_step\<close> is the body of the
  \<open>forEach\<close> callback, which assigns to the object \<open>headers\<close> of the enclosing function;
  \<open>forEach\<close> is the left fold.
\<close>

definition header_step :: "obj \<Rightarrow> string \<Rightarrow> obj" where
  "header_step headers pair =
     (let idx = indexOf pair CHR ''=''
      in if idx = - 1 then headers
         else (let key = trim (slice pair 0 idx);
                   val = trim (slice_from pair (idx + 1))
               in if key \<noteq> [] \<and> val \<noteq> [] then obj_assign headers key val else headers))"

definition parseOtlpHeaders :: "string option \<Rightarrow> obj option" where
  "parseOtlpHeaders headerStr =
     (case headerStr of
        None \<Rightarrow> None
      | Some s \<Rightarrow>
          if s = [] then None
          else (let headers = foldl header_step [] (split_on s CHR '','')
                in if length headers \<noteq> 0 then Some headers else None))"

text \<open>
  \<open>parseResourceAttributes\<close> of the instrumentation module. The callback splits the pair
  on every \<open>=\<close>, trims the pieces and takes the first two of them; the second is
  \<open>undefined\<close> when there is one piece only.
\<close>

definition attribute_step :: "obj \<Rightarrow> string \<Rightarrow> obj" where
  "attribute_step attrs pair =
     (case map trim (split_on pair CHR ''='') of
        key # val # _ \<Rightarrow> if key \<noteq> [] \<and> val \<noteq> [] then obj_assign attrs key val else attrs
      | _ \<Rightarrow> attrs)"

definition parseResourceAttributes :: "string option \<Rightarrow> obj" where
  "parseResourceAttributes attrStr =
     (case attrStr of
        None \<Rightarrow> []
      | Some s \<Rightarrow> if s = [] then [] else foldl attribute_step [] (split_on s CHR '',''))"

text \<open>
  \<open>parseHeaders\<close>, local to \<open>validateOtlp\<close> in \<open>scripts/validate-env.js\<close>. Its callback
  is that of \<open>parseOtlpHeaders\<close>, character for character, on the object \<open>h\<close>.
\<close>

definition parseHeaders_step :: "obj \<Rightarrow> string \<Rightarrow> obj" where
  "parseHeaders_step h pair =
     (let idx = indexOf pair CHR ''=''
      in if idx = - 1 then h
         else (let key = trim (slice pair 0 idx);
                   val = trim (slice_from pair (idx + 1))
               in if key \<noteq> [] \<and> val \<noteq> [] then obj_assign h key val else h))"

definition parseHeaders :: "string \<Rightarrow> obj" where
  "parseHeaders headerStr = foldl parseHeaders_step [] (split_on headerStr CHR '','')"

text \<open>
  The parsing rule in the words of the specification, for comparison with the code: the
  string is split on \<open>,\<close>; a segment is split once on its first \<open>=\<close>; a segment with no
  \<open>=\<close>, or with an empty key or an empty value, is discarded; a later pair overwrites an
  earlier one with the same key. The words name no trimming, and the key and the value
  are the two parts as they stand.
\<close>

definition spec_segment :: "string \<Rightarrow> (string \<times> string) option" where
  "spec_segment seg =
     (if CHR ''='' \<in> set seg then
        (let key = takeWhile (\<lambda>c. c \<noteq> CHR ''='') seg;
             val = tl (dropWhile (\<lambda>c. c \<noteq> CHR ''='') seg)
         in if key = [] \<or> val = [] then None else Some (key, val))
      else None)"

definition spec_headers :: "string list \<Rightarrow> (string \<rightharpoonup> string)" where
  "spec_headers segs =
     foldl (\<lambda>m seg. case spec_segment seg of None \<Rightarrow> m | Some (k, v) \<Rightarrow> m(k \<mapsto> v))
       Map.empty segs"

text \<open>
  The key-to-value mapping of a parser's result: \<open>undefined\<close> holds no pair, an object
  holds its properties.
\<close>

definition mapping_of :: "obj option \<Rightarrow> (string \<rightharpoonup> string)" where
  "mapping_of r = (case r of None \<Rightarrow> Map.empty | Some h \<Rightarrow> map_of h)"

section \<open>Values, exceptions and the console\<close>

text \<open>
  An exception carries its message. A call of the console is recorded with its stream and
  its arguments; an argument is a string, or \<open>undefined\<close> (\<open>None\<close>).
\<close>

datatype js_error = Error (message: string)

datatype stream = Log | Warn | Err | Debug

type_synonym console_call = "stream \<times> string option list"

text \<open>
  The values a caller hands to the logger. \<open>Number n\<close> is the integer \<open>n\<close>, a safe integer
  of the language; an object lists its properties in the order of their creation.
\<close>

datatype jsval =
    Undefined
  | Null
  | Bool bool
  | Number int
  | BigInt int
  | String string
  | Array "jsval list"
  | Object "(string \<times> jsval) list"

text \<open>Decimal numerals, as template literals and \<open>JSON.stringify\<close> print integers.\<close>

definition digit :: "nat \<Rightarrow> char" where
  "digit d = ''0123456789abcdef'' ! (d mod 16)"

fun show_nat :: "nat \<Rightarrow> string" where
  "show_nat n = (if n < 10 then [digit n] else show_nat (n div 10) @ [digit (n mod 10)])"

declare show_nat.simps [simp del]

definition show_int :: "int \<Rightarrow> string" where
  "show_int i = (if i < 0 then CHR ''-'' # show_nat (nat (- i)) else show_nat (nat i))"

text \<open>
  \<open>JSON.stringify\<close> of the platform on these values. A string is quoted with the escapes
  of the standard; \<open>undefined\<close> has no text (the call returns \<open>undefined\<close>, an array shows
  it as \<open>null\<close>, an object leaves the property out); a BigInt raises a \<open>TypeError\<close>.
\<close>

definition JSON_quote_char :: "char \<Rightarrow> string" where
  "JSON_quote_char c =
     (let n = (of_char c :: nat)
      in if n = 8 then [CHR 0x5C, CHR ''b'']
         else if n = 9 then [CHR 0x5C, CHR ''t'']
         else if n = 10 then [CHR 0x5C, CHR ''n'']
         else if n = 12 then [CHR 0x5C, CHR ''f'']
         else if n = 13 then [CHR 0x5C, CHR ''r'']
         else if n = 34 then [CHR 0x5C, CHR 0x22]
         else if n = 92 then [CHR 0x5C, CHR 0x5C]
         else if n < 32 then
           [CHR 0x5C, CHR ''u'', CHR ''0'', CHR ''0'', digit (n div 16), digit (n mod 16)]
         else [c])"

definition JSON_quote :: "string \<Rightarrow> string" where
  "JSON_quote s = CHR 0x22 # concat (map JSON_quote_char s) @ [CHR 0x22]"

fun join :: "string list \<Rightarrow> string" where
  "join [] = []"
| "join [p] = p"
| "join (p # q # ps) = p @ CHR '','' # join (q # ps)"

fun JSON_value :: "jsval \<Rightarrow> js_error + string option"
  and JSON_elements :: "jsval list \<Rightarrow> js_error + string list"
  and JSON_members :: "(string \<times> jsval) list \<Rightarrow> js_error + string list" where
  "JSON_value Undefined = Inr None"
| "JSON_value Null = Inr (Some ''null'')"
| "JSON_value (Bool b) = Inr (Some (if b then ''true'' else ''false''))"
| "JSON_value (Number n) = Inr (Some (show_int n))"
| "JSON_value (BigInt n) = Inl (Error ''Do not know how to serialize a BigInt'')"
| "JSON_value (String s) = Inr (Some (JSON_quote s))"
| "JSON_value (Array vs) =
     (case JSON_elements vs of
        Inl e \<Rightarrow> Inl e
      | Inr parts \<Rightarrow> Inr (Some (CHR ''['' # join parts @ '']'')))"
| "JSON_value (Object ps) =
     (case JSON_members ps of
        Inl e \<Rightarrow> Inl e
      | Inr parts \<Rightarrow> Inr (Some (CHR ''{'' # join parts @ ''}'')))"
| "JSON_elements [] = Inr []"
| "JSON_elements (v # vs) =
     (case JSON_value v of
        Inl e \<Rightarrow> Inl e
      | Inr t \<Rightarrow>
          (case JSON_elements vs of
             Inl e \<Rightarrow> Inl e
           | Inr parts \<Rightarrow> Inr ((case t of None \<Rightarrow> ''null'' | Some x \<Rightarrow> x) # parts)))"
| "JSON_members [] = Inr []"
| "JSON_members ((k, v) # ps) =
     (case JSON_value v of
        Inl e \<Rightarrow> Inl e
      | Inr t \<Rightarrow>
          (case JSON_members ps of
             Inl e \<Rightarrow> Inl e
           | Inr parts \<Rightarrow>
               Inr (case t of None \<Rightarrow> parts | Some x \<Rightarrow> (JSON_quote k @ CHR '':'' # x) # parts)))"

definition JSON_stringify :: "jsval \<Rightarrow> js_error + string option" where
  "JSON_stringify v = JSON_value v"

section \<open>The profiling gate and its initializer\<close>

definition DEFAULT_OTLP_ENDPOINT :: string where
  "DEFAULT_OTLP_ENDPOINT = ''http://localhost:4318''"

definition DEFAULT_PYROSCOPE_URL :: string where
  "DEFAULT_PYROSCOPE_URL = ''http://localhost:4040''"

record decision =
  enabled :: bool
  reason :: "string option"

text \<open>
  \<open>isPyroscopeEnabled\<close>. The constructor \<open>new URL(url)\<close> belongs to the platform: the
  parameter \<open>new_URL\<close> tells whether it returns (\<open>True\<close>) or throws.
\<close>

definition isPyroscopeEnabled :: "(string \<Rightarrow> bool) \<Rightarrow> env \<Rightarrow> decision" where
  "isPyroscopeEnabled new_URL env =
     (let url = or_else (env ''PYROSCOPE_URL'') DEFAULT_PYROSCOPE_URL
      in if url = [] \<or> url = ''false'' \<or> url = ''disabled'' then
           \<lparr>enabled = False, reason = Some ''PYROSCOPE_URL not set or disabled''\<rparr>
         else if \<not> new_URL url then
           \<lparr>enabled = False, reason = Some (''Invalid PYROSCOPE_URL: '' @ url)\<rparr>
         else \<lparr>enabled = True, reason = Some (''Configured: '' @ url)\<rparr>)"

text \<open>
  The address \<open>http://localhost:4040\<close> is an absolute URL with a scheme, a host and a port:
  the constructor returns on it. \<open>new_URL_local\<close> is the constructor on that one address.
\<close>

definition new_URL_local :: "string \<Rightarrow> bool" where
  "new_URL_local url = (url = ''http://localhost:4040'')"

text \<open>
  The profiler's configuration object, and the library \<open>@pyroscope/nodejs\<close> as the
  initializer uses it: \<open>SourceMapper.create\<close> where the library has one (it returns a
  mapper, returns nothing usable, or throws), \<open>init\<close> and \<open>start\<close> (each returns or throws).
\<close>

record 'sm pyroscope_config =
  serverAddress :: string
  appName :: string
  wall_collectCpuTime :: bool
  tags :: obj
  basicAuthUser :: "string option"
  basicAuthPassword :: "string option"
  sourceMapper :: "'sm option"

record 'sm pyroscope_lib =
  SourceMapper_create :: "(string list \<Rightarrow> js_error + 'sm option) option"
  pyroscope_init :: "'sm pyroscope_config \<Rightarrow> js_error option"
  pyroscope_start :: "js_error option"

datatype 'sm pyroscope_call = Init "'sm pyroscope_config" | Start

record 'sm pyroscope_run =
  returned :: decision
  calls :: "'sm pyroscope_call list"
  console :: "console_call list"

text \<open>\<open>process.env.DEBUG?.includes(word)\<close>.\<close>

definition debug_includes :: "env \<Rightarrow> string \<Rightarrow> bool" where
  "debug_includes env word = (case env ''DEBUG'' of None \<Rightarrow> False | Some d \<Rightarrow> includes_str d word)"

definition createSourceMapper ::
  "'sm pyroscope_lib \<Rightarrow> string list \<Rightarrow> 'sm option \<times> console_call list" where
  "createSourceMapper lib rootDirs =
     (case SourceMapper_create lib of
        None \<Rightarrow> (None, [])
      | Some create \<Rightarrow>
          (case create rootDirs of
             Inr mapper \<Rightarrow> (mapper, [])
           | Inl err \<Rightarrow>
               (None, [(Warn, [Some ''[instrumentation] SourceMapper create failed:'',
                               Some (message err)])])))"

text \<open>
  The configuration that \<open>initPyroscope\<close> builds before it looks for source maps: the
  server address, the tags, and the credentials, which are copied only inside the
  conditional on both variables.
\<close>

definition pyroscope_base_config :: "env \<Rightarrow> string \<Rightarrow> obj \<Rightarrow> 'sm pyroscope_config" where
  "pyroscope_base_config env app extraTags =
     (let serverAddress = or_else (env ''PYROSCOPE_URL'') DEFAULT_PYROSCOPE_URL;
          tags = obj_spread
            [(''namespace'',
                or_else (env ''KUBERNETES_NAMESPACE'') (or_else (env ''NAMESPACE'') ''local'')),
             (''cluster'', or_else (env ''KUBERNETES_CLUSTER'') ''local''),
             (''pod'', or_else (env ''POD_UID'') ''local'')]
            extraTags;
          config = \<lparr>serverAddress = serverAddress, appName = app, wall_collectCpuTime = True,
                    tags = tags, basicAuthUser = None, basicAuthPassword = None,
                    sourceMapper = None\<rparr>
      in if truthy (env ''PYROSCOPE_BASIC_AUTH_USER'') \<and> truthy (env ''PYROSCOPE_BASIC_AUTH_PASSWORD'')
         then config\<lparr>basicAuthUser := env ''PYROSCOPE_BASIC_AUTH_USER'',
                     basicAuthPassword := env ''PYROSCOPE_BASIC_AUTH_PASSWORD''\<rparr>
         else config)"

text \<open>
  \<open>initPyroscope(appName, extraTags, options)\<close>; \<open>rootDirs\<close> is
  \<open>options.sourceMapperRootDirs ?? ['.']\<close>. An exception of \<open>Pyroscope.init\<close> or
  \<open>Pyroscope.start\<close> is caught: it is printed and returned as the reason.
\<close>

definition string_tags :: "obj \<Rightarrow> jsval" where
  "string_tags ts = Object (map (\<lambda>(k, v). (k, String v)) ts)"

definition initPyroscope ::
  "(string \<Rightarrow> bool) \<Rightarrow> 'sm pyroscope_lib \<Rightarrow> env \<Rightarrow> string \<Rightarrow> obj \<Rightarrow> string list
     \<Rightarrow> 'sm pyroscope_run" where
  "initPyroscope new_URL lib env app extraTags rootDirs =
     (let d = isPyroscopeEnabled new_URL env
      in if \<not> enabled d then
           \<lparr>returned = \<lparr>enabled = False, reason = reason d\<rparr>, calls = [],
            console =
              (if debug_includes env ''pyroscope'' then
                 [(Debug, [Some (''[instrumentation] Pyroscope not initialized - ''
                                   @ (case reason d of None \<Rightarrow> ''undefined'' | Some r \<Rightarrow> r))])]
               else [])\<rparr>
         else
           (let config0 = pyroscope_base_config env app extraTags;
                (mapper, out) = (if length rootDirs > 0 then createSourceMapper lib rootDirs
                                 else (None, []));
                config = (case mapper of None \<Rightarrow> config0
                          | Some m \<Rightarrow> config0\<lparr>sourceMapper := Some m\<rparr>)
            in case pyroscope_init lib config of
                 Some err \<Rightarrow>
                   \<lparr>returned = \<lparr>enabled = False, reason = Some (message err)\<rparr>,
                    calls = [Init config],
                    console = out @ [(Err, [Some ''[instrumentation] Failed to initialize Pyroscope:'',
                                            Some (message err)])]\<rparr>
               | None \<Rightarrow>
                   (case pyroscope_start lib of
                      Some err \<Rightarrow>
                        \<lparr>returned = \<lparr>enabled = False, reason = Some (message err)\<rparr>,
                         calls = [Init config, Start],
                         console = out @ [(Err, [Some ''[instrumentation] Failed to initialize Pyroscope:'',
                                                 Some (message err)])]\<rparr>
                    | None \<Rightarrow>
                        \<lparr>returned = \<lparr>enabled = True, reason = None\<rparr>,
                         calls = [Init config, Start],
                         console = out @
                           (if debug_includes env ''pyroscope'' then
                              [(Debug, [Some (''[instrumentation] Pyroscope started for '' @ app
                                  @ '', tags=''
                                  @ (case JSON_stringify (string_tags (tags config)) of
                                       Inr (Some t) \<Rightarrow> t | _ \<Rightarrow> ''undefined''))])]
                            else [])\<rparr>)))"

section \<open>The tracing initializer\<close>

text \<open>
  \<open>initTracing(serviceName)\<close> hands objects to the constructors of the OpenTelemetry
  libraries. The model returns what it hands over: the headers of the exporter
  configuration (absent when there are none), the resource, the kind of span processor,
  and the same for the metrics and logs pipelines where they are switched on.
  \<open>initMetrics\<close> and \<open>initLogging\<close> build their resource from the service name alone.
\<close>

datatype span_processor = SimpleSpanProcessor | BatchSpanProcessor

record pipeline =
  exporter_headers :: "obj option"
  pipeline_resource :: obj

record tracing_setup =
  trace_exporter_headers :: "obj option"
  resource :: obj
  spanProcessor :: span_processor
  metrics :: "pipeline option"
  logs :: "pipeline option"

definition exporterConfig_headers :: "obj option \<Rightarrow> obj option" where
  "exporterConfig_headers hs =
     (case hs of None \<Rightarrow> None | Some h \<Rightarrow> if length h > 0 then Some h else None)"

definition initMetrics :: "string \<Rightarrow> string \<Rightarrow> obj option \<Rightarrow> pipeline" where
  "initMetrics serviceName endpoint hs =
     \<lparr>exporter_headers = exporterConfig_headers hs,
      pipeline_resource = [(''service.name'', serviceName)]\<rparr>"

definition initLogging :: "string \<Rightarrow> string \<Rightarrow> obj option \<Rightarrow> pipeline" where
  "initLogging serviceName endpoint hs =
     \<lparr>exporter_headers = exporterConfig_headers hs,
      pipeline_resource = [(''service.name'', serviceName)]\<rparr>"

definition initTracing :: "env \<Rightarrow> string \<Rightarrow> tracing_setup" where
  "initTracing env serviceName =
     (let endpoint = or_else (env ''OTEL_EXPORTER_OTLP_ENDPOINT'') DEFAULT_OTLP_ENDPOINT;
          hs = parseOtlpHeaders (env ''OTEL_EXPORTER_OTLP_HEADERS'')
      in \<lparr>trace_exporter_headers = exporterConfig_headers hs,
          resource = obj_spread [(''service.name'', serviceName)]
                       (parseResourceAttributes (env ''OTEL_RESOURCE_ATTRIBUTES'')),
          spanProcessor = (if env ''OTEL_SPAN_PROCESSOR'' = Some ''simple''
                           then SimpleSpanProcessor else BatchSpanProcessor),
          metrics = (if env ''OTEL_METRICS_ENABLED'' \<noteq> Some ''false''
                     then Some (initMetrics serviceName endpoint hs) else None),
          logs = (if env ''OTEL_LOGS_ENABLED'' \<noteq> Some ''false''
                  then Some (initLogging serviceName endpoint hs) else None)\<rparr>)"

section \<open>The logger facade\<close>

text \<open>
  \<open>getLogger(serviceName)\<close> returns the three operations \<open>info\<close>, \<open>warn\<close> and \<open>error\<close>,
  each a call of the inner function \<open>emit\<close>. The logger of the logs pipeline belongs to
  the library: \<open>logger_emit\<close> tells, for the record it is given, whether the call returns
  (\<open>None\<close>) or throws. The attributes argument is \<open>None\<close> when the caller leaves it out.
  A call of an operation returns the record it built and the console call it made, or
  throws.
\<close>

definition SeverityNumber_INFO :: nat where "SeverityNumber_INFO = 9"
definition SeverityNumber_WARN :: nat where "SeverityNumber_WARN = 13"
definition SeverityNumber_ERROR :: nat where "SeverityNumber_ERROR = 17"

record log_record =
  severityNumber :: nat
  severityText :: string
  log_body :: "string option"
  attributes :: "(string \<times> jsval) list"

definition emit ::
  "(log_record \<Rightarrow> js_error option) \<Rightarrow> string \<Rightarrow> nat \<Rightarrow> string \<Rightarrow> jsval
     \<Rightarrow> (string \<times> jsval) list option \<Rightarrow> js_error + log_record \<times> console_call list" where
  "emit logger_emit serviceName sevNumber sevText msg attrs =
     (case (case msg of String s \<Rightarrow> Inr (Some s) | _ \<Rightarrow> JSON_stringify msg) of
        Inl err \<Rightarrow> Inl err
      | Inr body \<Rightarrow>
          (let attrs' = (case attrs of None \<Rightarrow> [] | Some a \<Rightarrow> a);
               attributes = foldl (\<lambda>acc (k, v). AList.update k v acc)
                              [(''service.name'', String serviceName)] attrs';
               rec = \<lparr>severityNumber = sevNumber, severityText = sevText, log_body = body,
                      attributes = attributes\<rparr>;
               thrown = logger_emit rec;
               prefix = ''['' @ serviceName @ ''] '' @ sevText @ '':''
           in Inr (rec,
                   [(if sevNumber \<ge> SeverityNumber_ERROR then Err
                     else if sevNumber \<ge> SeverityNumber_WARN then Warn
                     else Log, [Some prefix, body])])))"

definition info ::
  "(log_record \<Rightarrow> js_error option) \<Rightarrow> string \<Rightarrow> jsval \<Rightarrow> (string \<times> jsval) list option
     \<Rightarrow> js_error + log_record \<times> console_call list" where
  "info logger_emit serviceName msg attrs =
     emit logger_emit serviceName SeverityNumber_INFO ''INFO'' msg attrs"

definition warn ::
  "(log_record \<Rightarrow> js_error option) \<Rightarrow> string \<Rightarrow> jsval \<Rightarrow> (string \<times> jsval) list option
     \<Rightarrow> js_error + log_record \<times> console_call list" where
  "warn logger_emit serviceName msg attrs =
     emit logger_emit serviceName SeverityNumber_WARN ''WARN'' msg attrs"

definition error ::
  "(log_record \<Rightarrow> js_error option) \<Rightarrow> string \<Rightarrow> jsval \<Rightarrow> (string \<times> jsval) list option
     \<Rightarrow> js_error + log_record \<times> console_call list" where
  "error logger_emit serviceName msg attrs =
     emit logger_emit serviceName SeverityNumber_ERROR ''ERROR'' msg attrs"

text \<open>A logger of the library whose \<open>emit\<close> returns for every record.\<close>

definition logger_returns :: "log_record \<Rightarrow> js_error option" where
  "logger_returns r = None"

section \<open>The connectivity validator\<close>

text \<open>
  \<open>fetch\<close> belongs to the platform: for a request it resolves with a response or rejects
  with an exception. \<open>base64\<close> is \<open>Buffer.from(s).toString('base64')\<close>.
\<close>

record request =
  req_url :: string
  req_method :: string
  req_headers :: obj
  req_body :: string

record response =
  status :: nat
  statusText :: string

record outcome =
  ok :: bool
  skip :: bool

text \<open>Lines 51 to 53 of \<open>validateOtlp\<close>: the address the trace probe is sent to.\<close>

definition baseUrl :: "string \<Rightarrow> string" where
  "baseUrl endpoint = (if startsWith endpoint ''http'' then endpoint else ''https://'' @ endpoint)"

definition tracesUrl :: "string \<Rightarrow> string" where
  "tracesUrl endpoint =
     (let normalized = strip_trailing_slash (baseUrl endpoint)
      in if includes_str normalized ''/v1/traces'' then normalized
         else normalized @ ''/v1/traces'')"

text \<open>The request of the trace probe; its body is \<open>JSON.stringify({ resourceSpans: [] })\<close>.\<close>

definition otlp_request :: "string \<Rightarrow> obj \<Rightarrow> request" where
  "otlp_request url authHeaders =
     \<lparr>req_url = url, req_method = ''POST'',
      req_headers = obj_spread authHeaders [(''Content-Type'', ''application/json'')],
      req_body = ''{'' @ [CHR 0x22] @ ''resourceSpans'' @ [CHR 0x22] @ '':[]}''\<rparr>"

definition otlp_probe ::
  "(request \<Rightarrow> js_error + response) \<Rightarrow> string \<Rightarrow> obj \<Rightarrow> outcome \<times> console_call list" where
  "otlp_probe fetch url authHeaders =
     (case fetch (otlp_request url authHeaders) of
        Inr res \<Rightarrow>
          if status res = 401 \<or> status res = 403 then
            (\<lparr>ok = False, skip = False\<rparr>,
             [(Err, [Some ''OTLP validation failed: Auth rejected (401/403)''])])
          else if status res \<ge> 400 then
            (\<lparr>ok = False, skip = False\<rparr>,
             [(Err, [Some (''OTLP validation failed: '' @ show_nat (status res) @ '' ''
                            @ statusText res)])])
          else (\<lparr>ok = True, skip = False\<rparr>, [])
      | Inl err \<Rightarrow>
          (\<lparr>ok = False, skip = False\<rparr>,
           [(Err, [Some ''OTLP validation failed:'', Some (message err)])]))"

definition validateOtlp ::
  "(request \<Rightarrow> js_error + response) \<Rightarrow> env \<Rightarrow> outcome \<times> console_call list" where
  "validateOtlp fetch env =
     (let endpoint = env ''OTEL_EXPORTER_OTLP_ENDPOINT'';
          hs = env ''OTEL_EXPORTER_OTLP_HEADERS''
      in if \<not> truthy endpoint \<or> \<not> includes_str (or_else endpoint []) ''grafana.net'' then
           (\<lparr>ok = True, skip = True\<rparr>,
            [(Log, [Some ''Skipping OTLP validation (not configured for Grafana Cloud)''])])
         else if \<not> truthy hs \<or> \<not> includes_str (or_else hs []) ''Authorization'' then
           (\<lparr>ok = False, skip = False\<rparr>,
            [(Err, [Some ''OTLP validation failed: OTEL_EXPORTER_OTLP_HEADERS required for Grafana Cloud''])])
         else
           (let authHeaders = parseHeaders (or_else hs [])
            in if \<not> truthy (obj_get authHeaders ''Authorization'') then
                 (\<lparr>ok = False, skip = False\<rparr>,
                  [(Err, [Some ''OTLP validation failed: Could not parse Authorization header''])])
               else otlp_probe fetch (tracesUrl (or_else endpoint [])) authHeaders))"

text \<open>
  The body of the profile probe:
  \<open>JSON.stringify({ appName: 'env-validation', profile: 'dGVzdA==', sampleType: 'cpu' })\<close>.
\<close>

definition the_profile_body :: string where
  "the_profile_body =
     (case JSON_stringify (Object [(''appName'', String ''env-validation''),
                                   (''profile'', String ''dGVzdA==''),
                                   (''sampleType'', String ''cpu'')]) of
        Inr (Some t) \<Rightarrow> t | _ \<Rightarrow> [])"

definition pyroscope_request :: "(string \<Rightarrow> string) \<Rightarrow> string \<Rightarrow> string \<Rightarrow> string \<Rightarrow> request" where
  "pyroscope_request base64 pyroscopeUrl user pass =
     (let ingestUrl = strip_trailing_slash pyroscopeUrl @ ''/ingest'';
          auth = base64 (user @ '':'' @ pass)
      in \<lparr>req_url = ingestUrl, req_method = ''POST'',
          req_headers = [(''Authorization'', ''Basic '' @ auth),
                         (''Content-Type'', ''application/json'')],
          req_body = the_profile_body\<rparr>)"

definition pyroscope_probe ::
  "(request \<Rightarrow> js_error + response) \<Rightarrow> (string \<Rightarrow> string) \<Rightarrow> string \<Rightarrow> string \<Rightarrow> string
     \<Rightarrow> outcome \<times> console_call list" where
  "pyroscope_probe fetch base64 pyroscopeUrl user pass =
     (case fetch (pyroscope_request base64 pyroscopeUrl user pass) of
        Inr res \<Rightarrow>
          if status res = 401 \<or> status res = 403 then
            (\<lparr>ok = False, skip = False\<rparr>,
             [(Err, [Some ''Pyroscope validation failed: Auth rejected (401/403)''])])
          else (\<lparr>ok = True, skip = False\<rparr>, [])
      | Inl err \<Rightarrow>
          (\<lparr>ok = False, skip = False\<rparr>,
           [(Err, [Some ''Pyroscope validation failed:'', Some (message err)])]))"

definition validatePyroscope ::
  "(request \<Rightarrow> js_error + response) \<Rightarrow> (string \<Rightarrow> string) \<Rightarrow> env
     \<Rightarrow> outcome \<times> console_call list" where
  "validatePyroscope fetch base64 env =
     (let pyroscopeUrl = env ''PYROSCOPE_URL'';
          user = env ''PYROSCOPE_BASIC_AUTH_USER'';
          pass = env ''PYROSCOPE_BASIC_AUTH_PASSWORD''
      in if \<not> truthy pyroscopeUrl \<or> \<not> includes_str (or_else pyroscopeUrl []) ''grafana.net'' then
           (\<lparr>ok = True, skip = True\<rparr>,
            [(Log, [Some ''Skipping Pyroscope validation (not configured for Grafana Cloud)''])])
         else if \<not> truthy user \<or> \<not> truthy pass then
           (\<lparr>ok = False, skip = False\<rparr>,
            [(Err, [Some ''Pyroscope validation failed: PYROSCOPE_BASIC_AUTH_USER and _PASSWORD required''])])
         else pyroscope_probe fetch base64 (or_else pyroscopeUrl []) (or_else user [])
                (or_else pass []))"

section \<open>Properties of the parsers\<close>

lemma indexOf_ge: "- 1 \<le> indexOf s c"
  by (induction s) (auto simp: Let_def)

lemma indexOf_absent: "indexOf s c = - 1 \<longleftrightarrow> c \<notin> set s"
proof (induction s)
  case Nil
  show ?case by simp
next
  case (Cons x xs)
  have "- 1 \<le> indexOf xs c" by (rule indexOf_ge)
  with Cons show ?case by (auto simp: Let_def)
qed

lemma indexOf_first:
  "c \<in> set s \<Longrightarrow> indexOf s c = int (length (takeWhile (\<lambda>x. x \<noteq> c) s))"
proof (induction s)
  case Nil
  then show ?case by simp
next
  case (Cons x xs)
  show ?case
  proof (cases "x = c")
    case True
    then show ?thesis by simp
  next
    case False
    with Cons.prems have "c \<in> set xs" by simp
    with Cons.IH False show ?thesis by (simp add: Let_def indexOf_absent)
  qed
qed

lemma slice_key:
  "c \<in> set s \<Longrightarrow> slice s 0 (indexOf s c) = takeWhile (\<lambda>x. x \<noteq> c) s"
proof -
  assume "c \<in> set s"
  then have i: "indexOf s c = int (length (takeWhile (\<lambda>x. x \<noteq> c) s))"
    by (rule indexOf_first)
  have "length (takeWhile (\<lambda>x. x \<noteq> c) s) \<le> length s"
    by (rule length_takeWhile_le)
  then show ?thesis
    unfolding i by (simp add: slice_def slice_index_def Let_def takeWhile_eq_take [symmetric])
qed

lemma slice_value:
  "c \<in> set s \<Longrightarrow> slice_from s (indexOf s c + 1) = tl (dropWhile (\<lambda>x. x \<noteq> c) s)"
proof -
  assume "c \<in> set s"
  then have i: "indexOf s c = int (length (takeWhile (\<lambda>x. x \<noteq> c) s))"
    by (rule indexOf_first)
  have "length (takeWhile (\<lambda>x. x \<noteq> c) s) \<le> length s"
    by (rule length_takeWhile_le)
  then have "slice_index s (indexOf s c + 1) = min (Suc (length (takeWhile (\<lambda>x. x \<noteq> c) s))) (length s)"
    unfolding i by (simp add: slice_index_def Let_def)
  then show ?thesis
    by (simp add: slice_from_def dropWhile_eq_drop tl_drop drop_Suc min_def)
qed

lemma trim_Nil: "trim [] = []"
  by (simp add: trim_def)

lemma header_step_spec:
  "header_step h seg =
     (case spec_segment seg of
        None \<Rightarrow> h
      | Some (k, v) \<Rightarrow> if trim k = [] \<or> trim v = [] then h else obj_assign h (trim k) (trim v))"
  by (auto simp: header_step_def spec_segment_def Let_def indexOf_absent slice_key slice_value
      trim_Nil)

lemma map_of_obj_assign:
  "map_of (obj_assign h k v) = (if k = ''__proto__'' then map_of h else (map_of h)(k \<mapsto> v))"
  by (simp add: obj_assign_def update_conv')

lemma headers_fold_spec:
  "map_of (foldl header_step h segs) =
     foldl (\<lambda>m seg. case spec_segment seg of
                       None \<Rightarrow> m
                     | Some (k, v) \<Rightarrow>
                         if trim k = [] \<or> trim v = [] \<or> trim k = ''__proto__'' then m
                         else m(trim k \<mapsto> trim v))
       (map_of h) segs"
proof (induction segs arbitrary: h)
  case Nil
  show ?case by simp
next
  case (Cons seg segs)
  have "map_of (header_step h seg) =
      (case spec_segment seg of
         None \<Rightarrow> map_of h
       | Some (k, v) \<Rightarrow>
           if trim k = [] \<or> trim v = [] \<or> trim k = ''__proto__'' then map_of h
           else (map_of h)(trim k \<mapsto> trim v))"
    by (simp add: header_step_spec map_of_obj_assign split: option.splits)
  then show ?case by (simp add: Cons.IH)
qed

lemma parseOtlpHeaders_fold:
  "mapping_of (parseOtlpHeaders (Some s)) = map_of (foldl header_step [] (split_on s CHR '',''))"
proof (cases "s = []")
  case True
  then show ?thesis
    by (simp add: mapping_of_def parseOtlpHeaders_def header_step_def)
next
  case False
  then show ?thesis
    by (auto simp: mapping_of_def parseOtlpHeaders_def Let_def)
qed

text \<open>
  Claim C3, as amended. For every raw header string, \<open>parseOtlpHeaders\<close> splits the string
  on \<open>,\<close> and each segment once on its first \<open>=\<close>, removes the white space around the key
  and around the value, and discards a segment with no \<open>=\<close>, or whose key or value is
  empty after that, without any effect on the other segments; a later pair overwrites an
  earlier one with the same key. A segment whose key is \<open>__proto__\<close> stores nothing. The
  string \<open>A=1,B=2,A=3\<close> parses to \<open>{A: "3", B: "2"}\<close> and \<open>A=1,,B=2,=x\<close> to
  \<open>{A: "1", B: "2"}\<close>.
\<close>

theorem parseOtlpHeaders_trims_then_follows_spec:
  "mapping_of (parseOtlpHeaders (Some s)) =
     foldl (\<lambda>m seg. case spec_segment seg of
                       None \<Rightarrow> m
                     | Some (k, v) \<Rightarrow>
                         if trim k = [] \<or> trim v = [] \<or> trim k = ''__proto__'' then m
                         else m(trim k \<mapsto> trim v))
       Map.empty (split_on s CHR '','')
   \<and> parseOtlpHeaders (Some ''A=1,B=2,A=3'') = Some [(''A'', ''3''), (''B'', ''2'')]
   \<and> parseOtlpHeaders (Some ''A=1,,B=2,=x'') = Some [(''A'', ''1''), (''B'', ''2'')]"
proof (intro conjI)
  show "mapping_of (parseOtlpHeaders (Some s)) =
     foldl (\<lambda>m seg. case spec_segment seg of
                       None \<Rightarrow> m
                     | Some (k, v) \<Rightarrow>
                         if trim k = [] \<or> trim v = [] \<or> trim k = ''__proto__'' then m
                         else m(trim k \<mapsto> trim v))
       Map.empty (split_on s CHR '','')"
    by (simp add: parseOtlpHeaders_fold headers_fold_spec)
next
  show "parseOtlpHeaders (Some ''A=1,B=2,A=3'') = Some [(''A'', ''3''), (''B'', ''2'')]"
    by (simp add: parseOtlpHeaders_def header_step_def slice_def slice_from_def
        slice_index_def trim_def is_white_space_def obj_assign_def)
next
  show "parseOtlpHeaders (Some ''A=1,,B=2,=x'') = Some [(''A'', ''1''), (''B'', ''2'')]"
    by (simp add: parseOtlpHeaders_def header_step_def slice_def slice_from_def
        slice_index_def trim_def is_white_space_def obj_assign_def)
qed

text \<open>
  Claim C3 as stated fails where the code trims and where the object refuses a key. In
  \<open>A= ,B=2\<close> the first segment has the key \<open>A\<close> and a value of one space: the rule as
  worded keeps the pair, the code drops it. In \<open> A = 1 \<close> the rule as worded stores the key
  and the value with their spaces, the code without. For \<open>__proto__=x\<close> the rule as worded
  stores the pair, the code returns \<open>undefined\<close>.
\<close>

theorem parseOtlpHeaders_spec_counterexample:
  "parseOtlpHeaders (Some ''A= ,B=2'') = Some [(''B'', ''2'')]
   \<and> spec_headers (split_on ''A= ,B=2'' CHR '','') ''A'' = Some '' ''
   \<and> parseOtlpHeaders (Some '' A = 1 '') = Some [(''A'', ''1'')]
   \<and> spec_headers (split_on '' A = 1 '' CHR '','') '' A '' = Some '' 1 ''
   \<and> parseOtlpHeaders (Some ''__proto__=x'') = None
   \<and> spec_headers (split_on ''__proto__=x'' CHR '','') ''__proto__'' = Some ''x''"
  by (simp add: parseOtlpHeaders_def header_step_def slice_def slice_from_def
      slice_index_def trim_def is_white_space_def obj_assign_def spec_headers_def
      spec_segment_def)

text \<open>
  Claim C4. On the string \<open>k=a=b\<close> the two parsers differ: \<open>parseResourceAttributes\<close>
  splits the segment on every \<open>=\<close> and keeps the second piece only, so the value is
  \<open>a\<close>, while \<open>parseOtlpHeaders\<close> splits once on the first \<open>=\<close> and keeps \<open>a=b\<close>.
\<close>

theorem parseResourceAttributes_truncates_value:
  "parseResourceAttributes (Some ''k=a=b'') = [(''k'', ''a'')]
   \<and> parseOtlpHeaders (Some ''k=a=b'') = Some [(''k'', ''a=b'')]"
  by (simp add: parseResourceAttributes_def attribute_step_def parseOtlpHeaders_def
      header_step_def slice_def slice_from_def slice_index_def trim_def is_white_space_def
      obj_assign_def)

lemma parseHeaders_fold: "parseHeaders s = foldl header_step [] (split_on s CHR '','')"
proof -
  have "parseHeaders_step = header_step"
    by (intro ext) (simp add: parseHeaders_step_def header_step_def)
  then show ?thesis by (simp add: parseHeaders_def)
qed

lemma parseOtlpHeaders_of_parseHeaders:
  "parseOtlpHeaders (Some s) = (if parseHeaders s = [] then None else Some (parseHeaders s))"
proof (cases "s = []")
  case True
  then show ?thesis
    by (simp add: parseOtlpHeaders_def parseHeaders_def parseHeaders_step_def)
next
  case False
  then show ?thesis
    by (simp add: parseOtlpHeaders_def parseHeaders_fold Let_def)
qed

text \<open>
  Claim C5. For every header string, the validator's \<open>parseHeaders\<close> and the
  initializer's \<open>parseOtlpHeaders\<close> give the same key-to-value mapping, a string with no
  valid pair included: there both hold no pair. The places that read the results agree as
  well: the headers handed to an exporter are the same, and so is the \<open>Authorization\<close>
  entry the validator looks up.
\<close>

theorem parseHeaders_same_mapping:
  "mapping_of (parseOtlpHeaders (Some s)) = mapping_of (Some (parseHeaders s))
   \<and> exporterConfig_headers (parseOtlpHeaders (Some s)) =
       exporterConfig_headers (Some (parseHeaders s))
   \<and> mapping_of (parseOtlpHeaders (Some s)) ''Authorization'' =
       obj_get (parseHeaders s) ''Authorization''"
  by (simp add: parseOtlpHeaders_of_parseHeaders mapping_of_def exporterConfig_headers_def
      obj_get_def)


section \<open>Endpoint normalization\<close>

lemma startsWith_iff: "startsWith s t \<longleftrightarrow> (\<exists>b. s = t @ b)"
proof
  assume "startsWith s t"
  then have "s = t @ drop (length t) s"
    by (metis append_take_drop_id startsWith_def)
  then show "\<exists>b. s = t @ b" ..
next
  assume "\<exists>b. s = t @ b"
  then show "startsWith s t" by (auto simp: startsWith_def)
qed

lemma includes_str_iff: "includes_str s t \<longleftrightarrow> (\<exists>a b. s = a @ t @ b)"
proof (induction s)
  case Nil
  show ?case by auto
next
  case (Cons x xs)
  show ?case
  proof
    assume "includes_str (x # xs) t"
    then consider "startsWith (x # xs) t" | "includes_str xs t" by auto
    then show "\<exists>a b. x # xs = a @ t @ b"
    proof cases
      case 1
      then obtain b where "x # xs = t @ b" by (auto simp: startsWith_iff)
      then have "x # xs = [] @ t @ b" by simp
      then show ?thesis by blast
    next
      case 2
      with Cons.IH obtain a b where "xs = a @ t @ b" by blast
      then have "x # xs = (x # a) @ t @ b" by simp
      then show ?thesis by blast
    qed
  next
    assume "\<exists>a b. x # xs = a @ t @ b"
    then obtain a b where ab: "x # xs = a @ t @ b" by blast
    show "includes_str (x # xs) t"
    proof (cases a)
      case Nil
      with ab have "startsWith (x # xs) t" by (auto simp: startsWith_iff)
      then show ?thesis by simp
    next
      case (Cons y ys)
      with ab have "xs = ys @ t @ b" by simp
      with Cons.IH have "includes_str xs t" by blast
      then show ?thesis by simp
    qed
  qed
qed

lemma includes_str_strip:
  assumes "includes_str s t" and "t \<noteq> []" and "last t \<noteq> CHR ''/''"
  shows "includes_str (strip_trailing_slash s) t"
proof (cases "s \<noteq> [] \<and> last s = CHR ''/''")
  case False
  with assms(1) show ?thesis by (auto simp: strip_trailing_slash_def)
next
  case True
  from assms(1) obtain a b where ab: "s = a @ t @ b" by (auto simp: includes_str_iff)
  have "b \<noteq> []"
  proof
    assume "b = []"
    with ab assms(2) have "last s = last t" by simp
    with True assms(3) show False by simp
  qed
  with ab have "butlast s = a @ t @ butlast b" by (simp add: butlast_append)
  then have "includes_str (butlast s) t" by (auto simp: includes_str_iff)
  with True show ?thesis by (simp add: strip_trailing_slash_def)
qed

lemma includes_str_append: "includes_str (s @ t) t"
  unfolding includes_str_iff by (metis append_Nil2)

lemma startsWith_strip:
  assumes "startsWith s ''http''" shows "startsWith (strip_trailing_slash s) ''http''"
proof -
  from assms obtain b where b: "s = ''http'' @ b" by (auto simp: startsWith_iff)
  show ?thesis
  proof (cases "b = []")
    case True
    with b show ?thesis by (simp add: strip_trailing_slash_def startsWith_def)
  next
    case False
    with b have "butlast s = ''http'' @ butlast b" by simp
    then have "startsWith (butlast s) ''http''" unfolding startsWith_iff by blast
    with assms show ?thesis by (simp add: strip_trailing_slash_def)
  qed
qed

lemma startsWith_baseUrl: "startsWith (baseUrl e) ''http''"
  by (simp add: baseUrl_def startsWith_def)

lemma startsWith_append: "startsWith s t \<Longrightarrow> startsWith (s @ u) t"
  unfolding startsWith_iff by auto

lemma startsWith_tracesUrl: "startsWith (tracesUrl e) ''http''"
  by (simp add: tracesUrl_def Let_def startsWith_append startsWith_strip startsWith_baseUrl)

lemma includes_tracesUrl: "includes_str (tracesUrl e) ''/v1/traces''"
  by (simp add: tracesUrl_def Let_def includes_str_append)

lemma tracesUrl_again: "tracesUrl (tracesUrl e) = strip_trailing_slash (tracesUrl e)"
proof -
  have b: "baseUrl (tracesUrl e) = tracesUrl e"
    using startsWith_tracesUrl [of e] by (simp add: baseUrl_def)
  have "includes_str (strip_trailing_slash (tracesUrl e)) ''/v1/traces''"
    by (rule includes_str_strip [OF includes_tracesUrl]) simp_all
  then show ?thesis
    unfolding tracesUrl_def [of "tracesUrl e"] b by (simp add: Let_def)
qed

lemma tracesUrl_nonempty: "tracesUrl e \<noteq> []"
  using startsWith_tracesUrl [of e] by (auto simp: startsWith_def)

lemma strip_fixed: "s \<noteq> [] \<Longrightarrow> strip_trailing_slash s = s \<longleftrightarrow> last s \<noteq> CHR ''/''"
  by (auto simp: strip_trailing_slash_def) (metis append_butlast_last_id append_self_conv list.distinct(1))

lemma includes_str_length: "includes_str s t \<Longrightarrow> length t \<le> length s"
  by (auto simp: includes_str_iff)

lemma tracesUrl_slash_end:
  assumes "last (tracesUrl e) = CHR ''/''"
  shows "take 2 (rev e) = ''//''"
proof -
  define b where "b = baseUrl e"
  define n where "n = strip_trailing_slash b"
  have inc: "includes_str n ''/v1/traces''"
  proof (rule ccontr)
    assume "\<not> includes_str n ''/v1/traces''"
    then have "tracesUrl e = n @ ''/v1/traces''"
      by (simp add: tracesUrl_def n_def b_def Let_def)
    with assms show False by simp
  qed
  then have t: "tracesUrl e = n"
    by (simp add: tracesUrl_def n_def b_def Let_def)
  from inc have len: "10 \<le> length n"
    using includes_str_length [of n "''/v1/traces''"] by simp
  then have "n \<noteq> []" by auto
  have "b \<noteq> [] \<and> last b = CHR ''/''"
  proof (rule ccontr)
    assume c: "\<not> (b \<noteq> [] \<and> last b = CHR ''/'')"
    then have "n = b" by (auto simp: n_def strip_trailing_slash_def)
    with c assms t \<open>n \<noteq> []\<close> show False by simp
  qed
  then have nb: "n = butlast b" and bl: "b = butlast b @ ''/''"
    by (auto simp: n_def strip_trailing_slash_def) (metis append_butlast_last_id)
  from assms t \<open>n \<noteq> []\<close> have "n = butlast n @ ''/''"
    by (metis append_butlast_last_id)
  with nb bl have bb: "b = butlast n @ ''//''" by (metis append.assoc append_Cons append_Nil)
  then have rb: "take 2 (rev b) = ''//''" by simp
  have "length b = length (butlast n) + 2" by (subst bb) simp
  with len have lb: "11 \<le> length b" by simp
  show ?thesis
  proof (cases "startsWith e ''http''")
    case True
    then have "b = e" by (simp add: b_def baseUrl_def)
    with rb show ?thesis by simp
  next
    case False
    then have be: "b = ''https://'' @ e" by (simp add: b_def baseUrl_def)
    with lb have "2 \<le> length e" by simp
    then have "take 2 (rev b) = take 2 (rev e)" unfolding be by simp
    with rb show ?thesis by simp
  qed
qed

text \<open>
  Claim C6, as amended. For every endpoint string the normalized address contains
  \<open>/v1/traces\<close>, so normalizing it again never appends the suffix a second time: the
  second pass only removes one more trailing slash. Normalization is therefore idempotent
  exactly on the endpoints whose normalized address does not end in a slash, which
  includes every endpoint that does not end in two slashes.
\<close>

theorem tracesUrl_idempotent_up_to_slash:
  "includes_str (tracesUrl e) ''/v1/traces''
   \<and> tracesUrl (tracesUrl e) = strip_trailing_slash (tracesUrl e)
   \<and> (tracesUrl (tracesUrl e) = tracesUrl e \<longleftrightarrow> last (tracesUrl e) \<noteq> CHR ''/'')
   \<and> (take 2 (rev e) \<noteq> ''//'' \<longrightarrow> tracesUrl (tracesUrl e) = tracesUrl e)"
  using tracesUrl_slash_end [of e]
  by (auto simp: includes_tracesUrl tracesUrl_again strip_fixed tracesUrl_nonempty)

theorem tracesUrl_idempotent_witness:
  "take 2 (rev ''tempo.grafana.net/otlp/'') \<noteq> ''//''
   \<and> tracesUrl (tracesUrl ''tempo.grafana.net/otlp/'') = tracesUrl ''tempo.grafana.net/otlp/''"
proof -
  have h: "take 2 (rev ''tempo.grafana.net/otlp/'') \<noteq> ''//''" by simp
  with tracesUrl_idempotent_up_to_slash [of "''tempo.grafana.net/otlp/''"] show ?thesis
    by blast
qed

text \<open>
  Claim C6 as stated fails on an endpoint that has the suffix already and ends in two
  slashes: the first pass removes one slash, the second pass the other. The endpoint
  contains \<open>grafana.net\<close>, so \<open>validateOtlp\<close> does not skip it and normalizes it.
\<close>

theorem tracesUrl_not_idempotent_counterexample:
  "includes_str ''http://x.grafana.net/v1/traces//'' ''grafana.net''
   \<and> tracesUrl ''http://x.grafana.net/v1/traces//'' = ''http://x.grafana.net/v1/traces/''
   \<and> tracesUrl (tracesUrl ''http://x.grafana.net/v1/traces//'') = ''http://x.grafana.net/v1/traces''"
  by (simp add: tracesUrl_def baseUrl_def startsWith_def strip_trailing_slash_def)

section \<open>The probes of the validator\<close>

text \<open>
  Claim C7. When \<open>PYROSCOPE_URL\<close> contains \<open>grafana.net\<close>, both credentials are set and
  the request of the profile probe is answered with a response, \<open>validatePyroscope\<close>
  reports failure for the status codes 401 and 403 and success for every other status
  code, 400 and the other 4xx codes included; the outcome is never a skip.
\<close>

theorem validatePyroscope_status:
  assumes "env ''PYROSCOPE_URL'' = Some u" and "includes_str u ''grafana.net''"
    and "env ''PYROSCOPE_BASIC_AUTH_USER'' = Some usr" and "usr \<noteq> []"
    and "env ''PYROSCOPE_BASIC_AUTH_PASSWORD'' = Some pw" and "pw \<noteq> []"
    and "fetch (pyroscope_request base64 u usr pw) = Inr res"
  shows "ok (fst (validatePyroscope fetch base64 env)) = (status res \<noteq> 401 \<and> status res \<noteq> 403)
    \<and> skip (fst (validatePyroscope fetch base64 env)) = False"
proof -
  from assms(2) have "u \<noteq> []" by auto
  with assms show ?thesis
    by (simp add: validatePyroscope_def pyroscope_probe_def truthy_def or_else_def Let_def)
qed

theorem validatePyroscope_status_witness:
  "ok (fst (validatePyroscope (\<lambda>r. Inr \<lparr>status = 400, statusText = ''Bad Request''\<rparr>) id
      [''PYROSCOPE_URL'' \<mapsto> ''https://profiles-prod-001.grafana.net'',
       ''PYROSCOPE_BASIC_AUTH_USER'' \<mapsto> ''1234'',
       ''PYROSCOPE_BASIC_AUTH_PASSWORD'' \<mapsto> ''key'']))
   \<and> \<not> ok (fst (validatePyroscope (\<lambda>r. Inr \<lparr>status = 403, statusText = ''Forbidden''\<rparr>) id
      [''PYROSCOPE_URL'' \<mapsto> ''https://profiles-prod-001.grafana.net'',
       ''PYROSCOPE_BASIC_AUTH_USER'' \<mapsto> ''1234'',
       ''PYROSCOPE_BASIC_AUTH_PASSWORD'' \<mapsto> ''key'']))"
proof -
  define env :: env where "env = [''PYROSCOPE_URL'' \<mapsto> ''https://profiles-prod-001.grafana.net'',
       ''PYROSCOPE_BASIC_AUTH_USER'' \<mapsto> ''1234'',
       ''PYROSCOPE_BASIC_AUTH_PASSWORD'' \<mapsto> ''key'']"
  define bad where "bad = \<lparr>status = 400, statusText = ''Bad Request''\<rparr>"
  define forbidden where "forbidden = \<lparr>status = 403, statusText = ''Forbidden''\<rparr>"
  have u: "env ''PYROSCOPE_URL'' = Some ''https://profiles-prod-001.grafana.net''"
    by (simp add: env_def)
  have g: "includes_str ''https://profiles-prod-001.grafana.net'' ''grafana.net''"
    by (simp add: startsWith_def)
  have usr: "env ''PYROSCOPE_BASIC_AUTH_USER'' = Some ''1234''" by (simp add: env_def)
  have pw: "env ''PYROSCOPE_BASIC_AUTH_PASSWORD'' = Some ''key''" by (simp add: env_def)
  have ne: "''1234'' \<noteq> []" "''key'' \<noteq> []" by simp_all
  note t = validatePyroscope_status [OF u g usr ne(1) pw ne(2), of _ id]
  have "ok (fst (validatePyroscope (\<lambda>r. Inr bad) id env))
      = (status bad \<noteq> 401 \<and> status bad \<noteq> 403)"
    using t [of "\<lambda>r. Inr bad" bad] by blast
  then have a: "ok (fst (validatePyroscope (\<lambda>r. Inr bad) id env))"
    by (simp add: bad_def)
  have "ok (fst (validatePyroscope (\<lambda>r. Inr forbidden) id env))
      = (status forbidden \<noteq> 401 \<and> status forbidden \<noteq> 403)"
    using t [of "\<lambda>r. Inr forbidden" forbidden] by blast
  then have b: "\<not> ok (fst (validatePyroscope (\<lambda>r. Inr forbidden) id env))"
    by (simp add: forbidden_def)
  from a b show ?thesis unfolding env_def bad_def forbidden_def by blast
qed

text \<open>
  Claim C8. When the endpoint contains \<open>grafana.net\<close> and the headers variable holds an
  \<open>Authorization\<close> header that parses, the outcome of \<open>validateOtlp\<close> is decided by the
  trace probe alone: status 401 or 403 is reported as rejected credentials and fails, any
  other status from 400 upwards fails with the status line, a status below 400 succeeds,
  and an exception of the request fails with its message instead of propagating.
\<close>

theorem validateOtlp_classifies:
  assumes "env ''OTEL_EXPORTER_OTLP_ENDPOINT'' = Some ep" and "includes_str ep ''grafana.net''"
    and "env ''OTEL_EXPORTER_OTLP_HEADERS'' = Some hs" and "includes_str hs ''Authorization''"
    and "truthy (obj_get (parseHeaders hs) ''Authorization'')"
  shows "validateOtlp fetch env =
    (case fetch (otlp_request (tracesUrl ep) (parseHeaders hs)) of
       Inr res \<Rightarrow>
         if status res = 401 \<or> status res = 403 then
           (\<lparr>ok = False, skip = False\<rparr>,
            [(Err, [Some ''OTLP validation failed: Auth rejected (401/403)''])])
         else if 400 \<le> status res then
           (\<lparr>ok = False, skip = False\<rparr>,
            [(Err, [Some (''OTLP validation failed: '' @ show_nat (status res) @ '' ''
                           @ statusText res)])])
         else (\<lparr>ok = True, skip = False\<rparr>, [])
     | Inl err \<Rightarrow>
         (\<lparr>ok = False, skip = False\<rparr>,
          [(Err, [Some ''OTLP validation failed:'', Some (message err)])]))"
proof -
  from assms(2) have "ep \<noteq> []" by auto
  moreover from assms(4) have "hs \<noteq> []" by auto
  ultimately show ?thesis using assms
    by (simp add: validateOtlp_def otlp_probe_def truthy_def or_else_def Let_def)
qed

theorem validateOtlp_classifies_witness:
  "validateOtlp (\<lambda>r. Inr \<lparr>status = 404, statusText = ''Not Found''\<rparr>)
     [''OTEL_EXPORTER_OTLP_ENDPOINT'' \<mapsto> ''tempo.grafana.net/otlp'',
      ''OTEL_EXPORTER_OTLP_HEADERS'' \<mapsto> ''Authorization=Basic abc='']
   = (\<lparr>ok = False, skip = False\<rparr>, [(Err, [Some ''OTLP validation failed: 404 Not Found''])])
   \<and> validateOtlp (\<lambda>r. Inl (Error ''fetch failed''))
     [''OTEL_EXPORTER_OTLP_ENDPOINT'' \<mapsto> ''tempo.grafana.net/otlp'',
      ''OTEL_EXPORTER_OTLP_HEADERS'' \<mapsto> ''Authorization=Basic abc='']
   = (\<lparr>ok = False, skip = False\<rparr>, [(Err, [Some ''OTLP validation failed:'', Some ''fetch failed''])])"
proof -
  let ?env = "[''OTEL_EXPORTER_OTLP_ENDPOINT'' \<mapsto> ''tempo.grafana.net/otlp'',
      ''OTEL_EXPORTER_OTLP_HEADERS'' \<mapsto> ''Authorization=Basic abc='']"
  have e: "?env ''OTEL_EXPORTER_OTLP_ENDPOINT'' = Some ''tempo.grafana.net/otlp''" by simp
  have g: "includes_str ''tempo.grafana.net/otlp'' ''grafana.net''"
    by (simp add: startsWith_def)
  have h: "?env ''OTEL_EXPORTER_OTLP_HEADERS'' = Some ''Authorization=Basic abc=''" by simp
  have a: "includes_str ''Authorization=Basic abc='' ''Authorization''"
    by (simp add: startsWith_def)
  have p: "truthy (obj_get (parseHeaders ''Authorization=Basic abc='') ''Authorization'')"
    by (simp add: truthy_def obj_get_def parseHeaders_def parseHeaders_step_def slice_def
        slice_from_def slice_index_def trim_def is_white_space_def obj_assign_def)
  note t = validateOtlp_classifies [OF e g h a p]
  show ?thesis
    by (simp add: t show_nat.simps digit_def)
qed


section \<open>The resource of the tracing pipeline\<close>

lemma map_of_obj_spread: "map_of (obj_spread h g) = map_of h ++ map_of (rev g)"
proof (induction g arbitrary: h)
  case Nil
  show ?case by (simp add: obj_spread_def)
next
  case (Cons p g)
  obtain k v where p: "p = (k, v)" by (cases p)
  have "obj_spread h (p # g) = obj_spread (AList.update k v h) g"
    by (simp add: obj_spread_def p)
  then show ?case
    by (simp add: Cons.IH update_conv' p map_of_append fun_eq_iff map_add_def
        split: option.splits)
qed

lemma map_of_rev_distinct: "distinct (map fst g) \<Longrightarrow> map_of (rev g) = map_of g"
proof (induction g)
  case Nil
  show ?case by simp
next
  case (Cons p g)
  obtain k v where p: "p = (k, v)" by (cases p)
  from Cons.prems have k: "map_of g k = None" and d: "distinct (map fst g)"
    by (auto simp: p map_of_eq_None_iff)
  show ?case
    using k by (auto simp: p Cons.IH [OF d] map_of_append fun_eq_iff map_add_def
        split: option.splits)
qed

lemma distinct_obj_assign: "distinct (map fst h) \<Longrightarrow> distinct (map fst (obj_assign h k v))"
  by (simp add: obj_assign_def distinct_update)

lemma distinct_attribute_step:
  "distinct (map fst h) \<Longrightarrow> distinct (map fst (attribute_step h seg))"
  by (auto simp: attribute_step_def distinct_obj_assign split: list.splits)

lemma distinct_attribute_fold:
  "distinct (map fst h) \<Longrightarrow> distinct (map fst (foldl attribute_step h segs))"
  by (induction segs arbitrary: h) (simp_all add: distinct_attribute_step)

lemma distinct_parseResourceAttributes: "distinct (map fst (parseResourceAttributes a))"
  by (simp add: parseResourceAttributes_def distinct_attribute_fold split: option.splits)

text \<open>
  Claim C2, as amended. For every value of \<open>OTEL_RESOURCE_ATTRIBUTES\<close> and every service
  name, the resource that \<open>initTracing\<close> builds maps \<open>service.name\<close> to the value of the
  \<open>service.name\<close> pair among the parsed attributes when there is one, and to the service
  name it was called with otherwise: the parsed attributes are spread after the key.
\<close>

theorem resource_service_name:
  "obj_get (resource (initTracing env serviceName)) ''service.name'' =
     (case obj_get (parseResourceAttributes (env ''OTEL_RESOURCE_ATTRIBUTES'')) ''service.name'' of
        None \<Rightarrow> Some serviceName
      | Some v \<Rightarrow> Some v)"
  by (simp add: initTracing_def obj_get_def Let_def map_of_obj_spread
      map_of_rev_distinct [OF distinct_parseResourceAttributes] map_add_def
      split: option.splits)

text \<open>
  Claim C2 as stated fails when the attributes name the service: called with \<open>backend\<close>
  and \<open>OTEL_RESOURCE_ATTRIBUTES=service.name=other\<close>, the resource says \<open>other\<close>.
\<close>

theorem resource_service_name_counterexample:
  "obj_get (resource (initTracing [''OTEL_RESOURCE_ATTRIBUTES'' \<mapsto> ''service.name=other''] ''backend''))
     ''service.name'' = Some ''other''"
  by (simp add: initTracing_def Let_def obj_get_def obj_spread_def parseResourceAttributes_def
      attribute_step_def trim_def is_white_space_def obj_assign_def)


section \<open>The logger facade never blocks on the pipeline\<close>

text \<open>
  Claim C9, as amended. For every service name, attribute map and behaviour of the
  library's \<open>emit\<close>, and for every message that \<open>JSON.stringify\<close> accepts (every string is
  one), each of \<open>info\<close>, \<open>warn\<close> and \<open>error\<close> returns and makes one call of the console,
  on the stream of its level, with the tag \<open>[serviceName] LEVEL:\<close> and the message body:
  the string itself, or the JSON text of another value. An exception of \<open>emit\<close> does not
  reach the caller.
\<close>

theorem logger_writes_console_line:
  assumes "JSON_stringify msg = Inr b"
  shows "map_sum id snd (info logger_emit serviceName msg attrs) =
      Inr [(Log, [Some (''['' @ serviceName @ ''] INFO:''),
                  (case msg of String s \<Rightarrow> Some s | _ \<Rightarrow> b)])]
    \<and> map_sum id snd (warn logger_emit serviceName msg attrs) =
      Inr [(Warn, [Some (''['' @ serviceName @ ''] WARN:''),
                   (case msg of String s \<Rightarrow> Some s | _ \<Rightarrow> b)])]
    \<and> map_sum id snd (error logger_emit serviceName msg attrs) =
      Inr [(Err, [Some (''['' @ serviceName @ ''] ERROR:''),
                  (case msg of String s \<Rightarrow> Some s | _ \<Rightarrow> b)])]"
  using assms
  by (cases msg)
    (simp_all add: info_def warn_def error_def emit_def Let_def SeverityNumber_INFO_def
      SeverityNumber_WARN_def SeverityNumber_ERROR_def)

theorem logger_writes_console_line_witness:
  "map_sum id snd (warn (\<lambda>r. Some (Error ''no provider'')) ''backend''
      (Object [(''count'', Number 3)]) None) =
      Inr [(Warn, [Some ''[backend] WARN:'', Some (''{'' @ [CHR 0x22] @ ''count'' @ [CHR 0x22] @ '':3}'')])]"
proof -
  have "JSON_stringify (Object [(''count'', Number 3)])
      = Inr (Some (''{'' @ [CHR 0x22] @ ''count'' @ [CHR 0x22] @ '':3}''))"
    by (simp add: JSON_stringify_def JSON_quote_def JSON_quote_char_def show_int_def
        show_nat.simps digit_def)
  from logger_writes_console_line [OF this, of "\<lambda>r. Some (Error ''no provider'')" "''backend''" None]
  show ?thesis by simp
qed

text \<open>
  Claim C9 as stated fails on a message that \<open>JSON.stringify\<close> rejects: the body is computed
  before the guarded call of \<open>emit\<close>, so for a BigInt the operation throws and no console
  line is written.
\<close>

theorem logger_throws_counterexample:
  "info logger_returns ''backend'' (BigInt 1) None
     = Inl (Error ''Do not know how to serialize a BigInt'')"
  by (simp add: info_def emit_def JSON_stringify_def)


section \<open>The profiling gate decides, the initializer follows\<close>

lemma or_else_nonempty: "d \<noteq> [] \<Longrightarrow> or_else v d \<noteq> []"
  by (simp add: or_else_def split: option.splits)

text \<open>
  Claim C1, as amended. Profiling is enabled unless the effective endpoint, which is
  \<open>PYROSCOPE_URL\<close> or the default \<open>http://localhost:4040\<close> when the variable is unset or
  empty, is the literal \<open>false\<close> or \<open>disabled\<close> or fails URL parsing. With the variable
  unset the decision is that of the default address. Each disabled case carries a reason
  that is not empty, and \<open>initPyroscope\<close> then calls nothing of the profiler and returns
  \<open>enabled: false\<close> with that reason.
\<close>

theorem profiling_gate:
  "enabled (isPyroscopeEnabled new_URL env) =
     (let url = or_else (env ''PYROSCOPE_URL'') DEFAULT_PYROSCOPE_URL
      in url \<noteq> ''false'' \<and> url \<noteq> ''disabled'' \<and> new_URL url)
   \<and> (env ''PYROSCOPE_URL'' = None \<longrightarrow>
        enabled (isPyroscopeEnabled new_URL env) = new_URL ''http://localhost:4040'')
   \<and> (\<not> enabled (isPyroscopeEnabled new_URL env) \<longrightarrow>
        (\<exists>r. reason (isPyroscopeEnabled new_URL env) = Some r \<and> r \<noteq> [])
        \<and> calls (initPyroscope new_URL lib env app extraTags rootDirs) = []
        \<and> returned (initPyroscope new_URL lib env app extraTags rootDirs) =
            \<lparr>enabled = False, reason = reason (isPyroscopeEnabled new_URL env)\<rparr>)"
proof (intro conjI impI)
  have ne: "or_else (env ''PYROSCOPE_URL'') DEFAULT_PYROSCOPE_URL \<noteq> []"
    by (rule or_else_nonempty) (simp add: DEFAULT_PYROSCOPE_URL_def)
  then show "enabled (isPyroscopeEnabled new_URL env) =
     (let url = or_else (env ''PYROSCOPE_URL'') DEFAULT_PYROSCOPE_URL
      in url \<noteq> ''false'' \<and> url \<noteq> ''disabled'' \<and> new_URL url)"
    by (simp add: isPyroscopeEnabled_def Let_def)
next
  assume "env ''PYROSCOPE_URL'' = None"
  then show "enabled (isPyroscopeEnabled new_URL env) = new_URL ''http://localhost:4040''"
    by (simp add: isPyroscopeEnabled_def Let_def or_else_def DEFAULT_PYROSCOPE_URL_def)
next
  assume "\<not> enabled (isPyroscopeEnabled new_URL env)"
  then show "\<exists>r. reason (isPyroscopeEnabled new_URL env) = Some r \<and> r \<noteq> []"
    by (simp add: isPyroscopeEnabled_def Let_def split: if_splits)
next
  assume "\<not> enabled (isPyroscopeEnabled new_URL env)"
  then show "calls (initPyroscope new_URL lib env app extraTags rootDirs) = []"
    by (simp add: initPyroscope_def Let_def)
next
  assume "\<not> enabled (isPyroscopeEnabled new_URL env)"
  then show "returned (initPyroscope new_URL lib env app extraTags rootDirs) =
            \<lparr>enabled = False, reason = reason (isPyroscopeEnabled new_URL env)\<rparr>"
    by (simp add: initPyroscope_def Let_def)
qed

theorem profiling_gate_witness:
  "enabled (isPyroscopeEnabled new_URL_local Map.empty)
   \<and> calls (initPyroscope new_URL_local
        \<lparr>SourceMapper_create = None, pyroscope_init = (\<lambda>c :: unit pyroscope_config. None),
         pyroscope_start = None\<rparr>
        [''PYROSCOPE_URL'' \<mapsto> ''disabled''] ''backend'' [] [''.'']) = []"
proof -
  define lib :: "unit pyroscope_lib" where
    "lib = \<lparr>SourceMapper_create = None, pyroscope_init = (\<lambda>c. None), pyroscope_start = None\<rparr>"
  define off :: env where "off = [''PYROSCOPE_URL'' \<mapsto> ''disabled'']"
  have u: "(Map.empty :: env) ''PYROSCOPE_URL'' = None" by simp
  from profiling_gate [of new_URL_local Map.empty lib "''backend''" "[]" "[''.'']"] u
  have "enabled (isPyroscopeEnabled new_URL_local Map.empty) =
      new_URL_local ''http://localhost:4040''"
    by blast
  then have a: "enabled (isPyroscopeEnabled new_URL_local Map.empty)"
    by (simp add: new_URL_local_def)
  have "enabled (isPyroscopeEnabled new_URL_local off) =
     (let url = or_else (off ''PYROSCOPE_URL'') DEFAULT_PYROSCOPE_URL
      in url \<noteq> ''false'' \<and> url \<noteq> ''disabled'' \<and> new_URL_local url)"
    using profiling_gate [of new_URL_local off lib "''backend''" "[]" "[''.'']"] by blast
  then have d: "\<not> enabled (isPyroscopeEnabled new_URL_local off)"
    by (simp add: off_def or_else_def)
  with profiling_gate [of new_URL_local off lib "''backend''" "[]" "[''.'']"]
  have b: "calls (initPyroscope new_URL_local lib off ''backend'' [] [''.'']) = []"
    by blast
  from a b show ?thesis unfolding lib_def off_def by blast
qed

text \<open>
  Claim C1 as stated fails for the unset variable: the gate takes the default address,
  which is a URL, and enables profiling.
\<close>

theorem profiling_unset_counterexample:
  "isPyroscopeEnabled new_URL_local Map.empty =
     \<lparr>enabled = True, reason = Some ''Configured: http://localhost:4040''\<rparr>"
  by (simp add: isPyroscopeEnabled_def or_else_def DEFAULT_PYROSCOPE_URL_def new_URL_local_def)

text \<open>
  Claim C10. Whenever the gate enables profiling, \<open>initPyroscope\<close> calls \<open>Pyroscope.init\<close>
  with a configuration that carries \<open>basicAuthUser\<close> and \<open>basicAuthPassword\<close>, the values of
  the two variables, if and only if both variables are set and not empty; with one of them
  missing the configuration carries neither. The credentials play no part in what follows:
  \<open>Pyroscope.start\<close> is called whenever \<open>init\<close> returns, and the result is
  \<open>enabled: true\<close> whenever both return.
\<close>

theorem basic_auth_needs_both:
  assumes "enabled (isPyroscopeEnabled new_URL env)"
  shows "\<exists>cfg. calls (initPyroscope new_URL lib env app extraTags rootDirs) =
        Init cfg # (if pyroscope_init lib cfg = None then [Start] else [])
     \<and> (if truthy (env ''PYROSCOPE_BASIC_AUTH_USER'') \<and> truthy (env ''PYROSCOPE_BASIC_AUTH_PASSWORD'')
         then basicAuthUser cfg = env ''PYROSCOPE_BASIC_AUTH_USER''
            \<and> basicAuthPassword cfg = env ''PYROSCOPE_BASIC_AUTH_PASSWORD''
         else basicAuthUser cfg = None \<and> basicAuthPassword cfg = None)
     \<and> enabled (returned (initPyroscope new_URL lib env app extraTags rootDirs)) =
         (pyroscope_init lib cfg = None \<and> pyroscope_start lib = None)"
proof -
  define cfg0 :: "'a pyroscope_config" where "cfg0 = pyroscope_base_config env app extraTags"
  obtain mapper out where
    mo: "(if length rootDirs > 0 then createSourceMapper lib rootDirs else (None, [])) = (mapper, out)"
    by (cases "if length rootDirs > 0 then createSourceMapper lib rootDirs else (None, [])")
  define cfg where
    "cfg = (case mapper of None \<Rightarrow> cfg0 | Some m \<Rightarrow> cfg0\<lparr>sourceMapper := Some m\<rparr>)"
  have auth: "basicAuthUser cfg = basicAuthUser cfg0 \<and> basicAuthPassword cfg = basicAuthPassword cfg0"
    by (simp add: cfg_def split: option.splits)
  have base: "if truthy (env ''PYROSCOPE_BASIC_AUTH_USER'') \<and> truthy (env ''PYROSCOPE_BASIC_AUTH_PASSWORD'')
         then basicAuthUser cfg0 = env ''PYROSCOPE_BASIC_AUTH_USER''
            \<and> basicAuthPassword cfg0 = env ''PYROSCOPE_BASIC_AUTH_PASSWORD''
         else basicAuthUser cfg0 = None \<and> basicAuthPassword cfg0 = None"
    by (simp add: cfg0_def pyroscope_base_config_def Let_def)
  have run: "initPyroscope new_URL lib env app extraTags rootDirs =
      (case pyroscope_init lib cfg of
         Some err \<Rightarrow>
           \<lparr>returned = \<lparr>enabled = False, reason = Some (message err)\<rparr>,
            calls = [Init cfg],
            console = out @ [(Err, [Some ''[instrumentation] Failed to initialize Pyroscope:'',
                                    Some (message err)])]\<rparr>
       | None \<Rightarrow>
           (case pyroscope_start lib of
              Some err \<Rightarrow>
                \<lparr>returned = \<lparr>enabled = False, reason = Some (message err)\<rparr>,
                 calls = [Init cfg, Start],
                 console = out @ [(Err, [Some ''[instrumentation] Failed to initialize Pyroscope:'',
                                         Some (message err)])]\<rparr>
            | None \<Rightarrow>
                \<lparr>returned = \<lparr>enabled = True, reason = None\<rparr>,
                 calls = [Init cfg, Start],
                 console = out @
                   (if debug_includes env ''pyroscope'' then
                      [(Debug, [Some (''[instrumentation] Pyroscope started for '' @ app
                          @ '', tags=''
                          @ (case JSON_stringify (string_tags (tags cfg)) of
                               Inr (Some t) \<Rightarrow> t | _ \<Rightarrow> ''undefined''))])]
                    else [])\<rparr>))"
    using assms unfolding initPyroscope_def Let_def mo cfg_def cfg0_def by simp
  have c: "calls (initPyroscope new_URL lib env app extraTags rootDirs) =
        Init cfg # (if pyroscope_init lib cfg = None then [Start] else [])"
    unfolding run by (simp split: option.splits)
  have r: "enabled (returned (initPyroscope new_URL lib env app extraTags rootDirs)) =
         (pyroscope_init lib cfg = None \<and> pyroscope_start lib = None)"
    unfolding run by (simp split: option.splits)
  from c r auth base show ?thesis by (intro exI [of _ cfg]) simp
qed

theorem basic_auth_needs_both_witness:
  "\<exists>cfg. calls (initPyroscope new_URL_local
        \<lparr>SourceMapper_create = None, pyroscope_init = (\<lambda>c :: unit pyroscope_config. None),
         pyroscope_start = None\<rparr>
        [''PYROSCOPE_BASIC_AUTH_USER'' \<mapsto> ''1234''] ''backend'' [] [''.'']) = [Init cfg, Start]
     \<and> basicAuthUser cfg = None \<and> basicAuthPassword cfg = None"
proof -
  define lib :: "unit pyroscope_lib" where
    "lib = \<lparr>SourceMapper_create = None, pyroscope_init = (\<lambda>c. None), pyroscope_start = None\<rparr>"
  define one :: env where "one = [''PYROSCOPE_BASIC_AUTH_USER'' \<mapsto> ''1234'']"
  have e: "enabled (isPyroscopeEnabled new_URL_local one)"
    by (simp add: isPyroscopeEnabled_def one_def or_else_def DEFAULT_PYROSCOPE_URL_def
        new_URL_local_def)
  have i: "pyroscope_init lib c = None" for c by (simp add: lib_def)
  have t: "\<not> (truthy (one ''PYROSCOPE_BASIC_AUTH_USER'') \<and> truthy (one ''PYROSCOPE_BASIC_AUTH_PASSWORD''))"
    by (simp add: one_def truthy_def)
  from basic_auth_needs_both [OF e, of lib "''backend''" "[]" "[''.'']"]
  obtain cfg where
    "calls (initPyroscope new_URL_local lib one ''backend'' [] [''.'']) =
        Init cfg # (if pyroscope_init lib cfg = None then [Start] else [])"
    and "if truthy (one ''PYROSCOPE_BASIC_AUTH_USER'') \<and> truthy (one ''PYROSCOPE_BASIC_AUTH_PASSWORD'')
         then basicAuthUser cfg = one ''PYROSCOPE_BASIC_AUTH_USER''
            \<and> basicAuthPassword cfg = one ''PYROSCOPE_BASIC_AUTH_PASSWORD''
         else basicAuthUser cfg = None \<and> basicAuthPassword cfg = None"
    by blast
  with i t have "calls (initPyroscope new_URL_local lib one ''backend'' [] [''.'']) = [Init cfg, Start]
     \<and> basicAuthUser cfg = None \<and> basicAuthPassword cfg = None"
    by simp
  then show ?thesis unfolding lib_def one_def by blast
qed

end
